theory Spec2Isabelle
  imports Main "HOL-Library.Sublist"
begin

section \<open>Python values and built-ins the loggers rely on\<close>

text \<open>
  The repository holds several rewrites of one logging facility on top of Python's
  \<^verbatim>\<open>logging\<close> package. Strings are \<^typ>\<open>string\<close>, Python's unbounded integers are
  \<^typ>\<open>int\<close>, and every exception a modelled path can raise is a value of
  \<open>py_error\<close>. \<open>NotModelled\<close> is no Python exception: it marks an input outside the
  fragment of \<^verbatim>\<open>%\<close>-formatting that is modelled below.
\<close>

datatype py_error = IndexError | AttributeError | TypeError | ValueError | NotModelled

subsection \<open>\<^verbatim>\<open>str(int)\<close>, \<^verbatim>\<open>str.upper\<close>, \<^verbatim>\<open>str.replace\<close>, \<^verbatim>\<open>os.path.basename\<close>\<close>

definition digit_char :: "nat \<Rightarrow> char" where
  "digit_char n = ''0123456789'' ! (n mod 10)"

fun str_nat :: "nat \<Rightarrow> string" where
  "str_nat n = (if n < 10 then [digit_char n] else str_nat (n div 10) @ [digit_char n])"

declare str_nat.simps [simp del]

definition str_int :: "int \<Rightarrow> string" where
  "str_int i = (if i < 0 then CHR ''-'' # str_nat (nat (- i)) else str_nat (nat i))"

text \<open>\<^verbatim>\<open>str.upper\<close> on ASCII letters; every other character is left as it is.\<close>

definition upper_char :: "char \<Rightarrow> char" where
  "upper_char c =
     (case map_of (zip ''abcdefghijklmnopqrstuvwxyz'' ''ABCDEFGHIJKLMNOPQRSTUVWXYZ'') c of
        Some u \<Rightarrow> u
      | None \<Rightarrow> c)"

definition upper :: "string \<Rightarrow> string" where
  "upper s = map upper_char s"

text \<open>
  \<^verbatim>\<open>s.replace(old, new)\<close>: the occurrences of \<open>old\<close> are found from left to right and do
  not overlap; with an empty \<open>old\<close>, \<open>new\<close> is put before every character and at the end.
\<close>

function py_replace :: "string \<Rightarrow> string \<Rightarrow> string \<Rightarrow> string" where
  "py_replace old new [] = (if old = [] then new else [])"
| "py_replace old new (c # cs) =
     (if old = [] then new @ c # py_replace old new cs
      else if prefix old (c # cs)
        then new @ py_replace old new (drop (length old) (c # cs))
        else c # py_replace old new cs)"
  by pat_completeness auto
termination
  by (relation "measure (\<lambda>(old, new, s). length s)") (auto simp: neq_Nil_conv)

definition basename :: "string \<Rightarrow> string" where
  "basename p = rev (takeWhile (\<lambda>c. c \<noteq> CHR ''/'') (rev p))"

subsection \<open>\<^verbatim>\<open>msg % args\<close>\<close>

text \<open>
  \<^verbatim>\<open>LogRecord.getMessage\<close> computes \<^verbatim>\<open>msg % args\<close> when arguments were passed. The
  arguments are modelled as strings, and of the conversions only \<^verbatim>\<open>%s\<close> and \<^verbatim>\<open>%%\<close>: a
  lone \<^verbatim>\<open>%\<close> at the end is Python's ValueError, too few or too many arguments its
  TypeError, and any other conversion is \<open>NotModelled\<close>.
\<close>

fun py_percent :: "string \<Rightarrow> string list \<Rightarrow> py_error + string" where
  "py_percent [] [] = Inr []"
| "py_percent [] (a # as) = Inl TypeError"
| "py_percent [c] as =
     (if c = CHR ''%'' then Inl ValueError
      else (case py_percent [] as of Inl e \<Rightarrow> Inl e | Inr t \<Rightarrow> Inr (c # t)))"
| "py_percent (c # d # cs) as =
     (if c \<noteq> CHR ''%'' then
        (case py_percent (d # cs) as of Inl e \<Rightarrow> Inl e | Inr t \<Rightarrow> Inr (c # t))
      else if d = CHR ''%'' then
        (case py_percent cs as of Inl e \<Rightarrow> Inl e | Inr t \<Rightarrow> Inr (CHR ''%'' # t))
      else if d = CHR ''s'' then
        (case as of
           [] \<Rightarrow> Inl TypeError
         | a # as' \<Rightarrow> (case py_percent cs as' of Inl e \<Rightarrow> Inl e | Inr t \<Rightarrow> Inr (a @ t)))
      else Inl NotModelled)"

section \<open>The \<^verbatim>\<open>logging\<close> package as the loggers use it\<close>

subsection \<open>Levels\<close>

definition NOTSET :: int where "NOTSET = 0"
definition DEBUG :: int where "DEBUG = 10"
definition INFO :: int where "INFO = 20"
definition WARNING :: int where "WARNING = 30"
definition ERROR :: int where "ERROR = 40"
definition CRITICAL :: int where "CRITICAL = 50"

definition getLevelName :: "int \<Rightarrow> string" where
  "getLevelName l =
     (if l = CRITICAL then ''CRITICAL''
      else if l = ERROR then ''ERROR''
      else if l = WARNING then ''WARNING''
      else if l = INFO then ''INFO''
      else if l = DEBUG then ''DEBUG''
      else if l = NOTSET then ''NOTSET''
      else ''Level '' @ str_int l)"

subsection \<open>Frames, the environment of a call, records\<close>

text \<open>
  One entry of \<^verbatim>\<open>inspect.stack()\<close>: file name, line number and function name, and
  the \<^verbatim>\<open>__name__\<close> of the module \<^verbatim>\<open>inspect.getmodule\<close> finds for the frame, if any.
\<close>

record frame_info =
  f_filename :: string
  f_lineno :: int
  f_function :: string
  f_module :: "string option"

text \<open>The last entry of \<^verbatim>\<open>traceback.extract_tb\<close>; the source line may be missing.\<close>

record tb_entry =
  tb_file :: string
  tb_line :: int
  tb_func :: string
  tb_context :: "string option"

text \<open>
  What one call reads from outside the logger: \<open>stack\<close> holds the frames of the code
  that calls the level method, innermost first (empty when no Python frame calls it);
  \<open>now\<close> is \<^verbatim>\<open>datetime.now().strftime(...)\<close> as the level method reads it, \<open>created\<close>
  the record's creation time as \<^verbatim>\<open>%(asctime)s\<close> prints it, \<open>fmt_now\<close> the time the JSON
  formatter reads, \<open>clock\<close> the time in microseconds for the timers; \<open>exc_tb\<close> is the
  last traceback entry of the exception in flight and \<open>format_exc\<close> the text of
  \<^verbatim>\<open>traceback.format_exc()\<close>; \<open>src_file\<close> and \<open>src_module\<close> name the logger module
  itself; \<open>environment\<close> is \<^verbatim>\<open>os.getenv("ENV", "development")\<close>.
\<close>

record env =
  stack :: "frame_info list"
  now :: string
  created :: string
  fmt_now :: string
  clock :: int
  exc_tb :: "tb_entry option"
  format_exc :: string
  src_file :: string
  src_module :: string
  pid :: int
  tid :: int
  environment :: string

record log_record =
  rec_name :: string
  levelno :: int
  levelname :: string
  pathname :: string
  filename :: string
  lineno :: int
  funcName :: string
  msg :: string
  args :: "string list"
  asctime :: string
  process :: int
  thread :: int
  user_id :: "string option"

definition frame_at :: "env \<Rightarrow> int \<Rightarrow> string \<Rightarrow> frame_info" where
  "frame_at e line fn =
     \<lparr>f_filename = src_file e, f_lineno = line, f_function = fn,
      f_module = Some (src_module e)\<rparr>"

text \<open>
  \<^verbatim>\<open>inspect.stack()\<close> called in the resolver: the resolver's own frame, the frame of
  the level method that called it, then the frames of the calling code.
\<close>

definition inspect_stack :: "env \<Rightarrow> frame_info \<Rightarrow> frame_info \<Rightarrow> frame_info list" where
  "inspect_stack e own meth = own # meth # stack e"

definition makeRecord ::
  "string \<Rightarrow> int \<Rightarrow> frame_info \<Rightarrow> env \<Rightarrow> string \<Rightarrow> string list \<Rightarrow> log_record" where
  "makeRecord name level caller e m a =
     \<lparr>rec_name = name, levelno = level, levelname = getLevelName level,
      pathname = f_filename caller, filename = basename (f_filename caller),
      lineno = f_lineno caller, funcName = f_function caller,
      msg = m, args = a, asctime = created e, process = pid e, thread = tid e,
      user_id = None\<rparr>"

definition getMessage :: "log_record \<Rightarrow> py_error + string" where
  "getMessage r = (if args r = [] then Inr (msg r) else py_percent (msg r) (args r))"

subsection \<open>Formatters\<close>

text \<open>
  A format string such as \<^verbatim>\<open>'%(asctime)s - %(levelname)s - %(message)s'\<close> is the list of
  its pieces. A sink line is a text, or the dictionary that the JSON formatter hands to
  \<^verbatim>\<open>json.dumps\<close> (in insertion order).
\<close>

datatype piece =
  Lit string | Asctime | Name | Levelname | Filename | Lineno | Process | Thread | Message

datatype formatter = Formatter "piece list" | CustomFormatter "piece list" | JSONFormatter

datatype jval = JStr string | JInt int

datatype line = Text string | JsonDumps "(string \<times> jval) list"

fun render_piece :: "log_record \<Rightarrow> string \<Rightarrow> piece \<Rightarrow> string" where
  "render_piece r m (Lit s) = s"
| "render_piece r m Asctime = asctime r"
| "render_piece r m Name = rec_name r"
| "render_piece r m Levelname = levelname r"
| "render_piece r m Filename = filename r"
| "render_piece r m Lineno = str_int (lineno r)"
| "render_piece r m Process = str_int (process r)"
| "render_piece r m Thread = str_int (thread r)"
| "render_piece r m Message = m"

definition Formatter_format :: "piece list \<Rightarrow> log_record \<Rightarrow> py_error + string" where
  "Formatter_format ps r =
     (case getMessage r of
        Inl err \<Rightarrow> Inl err
      | Inr m \<Rightarrow> Inr (concat (map (render_piece r m) ps)))"

definition ESC :: char where
  "ESC = CHR 0x1B"

definition RESET :: string where
  "RESET = ESC # ''[0m''"

definition COLORS :: "string \<Rightarrow> string option" where
  "COLORS = map_of
     [(''DEBUG'', ESC # ''[94m''), (''INFO'', ESC # ''[92m''),
      (''WARNING'', ESC # ''[93m''), (''ERROR'', ESC # ''[91m''), (''RESET'', RESET)]"

definition CustomFormatter_format :: "piece list \<Rightarrow> log_record \<Rightarrow> py_error + string" where
  "CustomFormatter_format ps r =
     (case Formatter_format ps r of
        Inl err \<Rightarrow> Inl err
      | Inr log_msg \<Rightarrow>
          (let color = (case COLORS (levelname r) of Some c \<Rightarrow> c | None \<Rightarrow> RESET);
               reset = RESET
           in Inr (color @ log_msg @ reset)))"

definition JSONFormatter_format :: "env \<Rightarrow> log_record \<Rightarrow> line" where
  "JSONFormatter_format e r =
     JsonDumps
       [(''time'', JStr (fmt_now e)), (''level'', JStr (levelname r)),
        (''file'', JStr (pathname r)), (''line'', JInt (lineno r)),
        (''message'', JStr (msg r))]"

text \<open>\<^verbatim>\<open>Handler.format\<close>: a handler without a formatter uses \<^verbatim>\<open>'%(message)s'\<close>.\<close>

fun Handler_format :: "formatter option \<Rightarrow> env \<Rightarrow> log_record \<Rightarrow> py_error + line" where
  "Handler_format None e r = map_sum id Text (Formatter_format [Message] r)"
| "Handler_format (Some (Formatter ps)) e r = map_sum id Text (Formatter_format ps r)"
| "Handler_format (Some (CustomFormatter ps)) e r = map_sum id Text (CustomFormatter_format ps r)"
| "Handler_format (Some JSONFormatter) e r = Inr (JSONFormatter_format e r)"

subsection \<open>Handlers, filters, loggers and the state of the process\<close>

datatype handler_kind = FileHandler | StreamHandler | QueueHandler

record handler =
  h_kind :: handler_kind
  h_level :: int
  h_formatter :: "formatter option"

datatype log_filter = SensitiveDataFilter | ContextFilter

text \<open>
  A logger object: \<open>lg_id\<close> stands for its identity (the number of loggers constructed
  before it), the other fields are its name, level, filters and handlers.
\<close>

record logger =
  lg_id :: nat
  lg_name :: string
  lg_level :: int
  lg_filters :: "log_filter list"
  lg_handlers :: "handler list"

text \<open>
  The state of the process: the class attributes of \<^verbatim>\<open>CaptureConsoleLogs\<close>, the queue
  between the queue handler and its listener (whether the listener's thread runs, and
  the handlers it serves), what the file and the console have received line by line,
  the files opened and the loggers constructed so far, and two counters: the calls of
  \<^verbatim>\<open>inspect.stack()\<close> and the records constructed. File rotation is left out: \<open>file_out\<close>
  is everything written to the log file and its backups.
\<close>

record pstate =
  shared_logger :: "logger option"
  log_file_name :: "string option"
  created_loggers :: "string list"
  queue_listener :: "handler list option"
  listener_alive :: bool
  log_queue :: "log_record list"
  file_out :: "line list"
  console_out :: "line list"
  files_opened :: "string list"
  loggers_constructed :: nat
  stack_inspections :: nat
  records_made :: nat

definition initial :: pstate where
  "initial =
     \<lparr>shared_logger = None, log_file_name = None, created_loggers = [],
      queue_listener = None, listener_alive = False, log_queue = [],
      file_out = [], console_out = [], files_opened = [], loggers_constructed = 0,
      stack_inspections = 0, records_made = 0\<rparr>"

text \<open>
  \<^verbatim>\<open>Handler.handle\<close> and \<^verbatim>\<open>emit\<close>. An exception raised while formatting is caught by
  \<^verbatim>\<open>handleError\<close>: nothing reaches the sink and the caller goes on. The queue handler
  enqueues a copy of the record whose \<open>msg\<close> is the formatted message and whose \<open>args\<close>
  are dropped (\<^verbatim>\<open>QueueHandler.prepare\<close>).
\<close>

definition Handler_handle :: "handler \<Rightarrow> env \<Rightarrow> log_record \<Rightarrow> pstate \<Rightarrow> py_error + pstate" where
  "Handler_handle h e r s =
     (case h_kind h of
        FileHandler \<Rightarrow>
          (case Handler_format (h_formatter h) e r of
             Inl err \<Rightarrow> if err = NotModelled then Inl NotModelled else Inr s
           | Inr l \<Rightarrow> Inr (s\<lparr>file_out := file_out s @ [l]\<rparr>))
      | StreamHandler \<Rightarrow>
          (case Handler_format (h_formatter h) e r of
             Inl err \<Rightarrow> if err = NotModelled then Inl NotModelled else Inr s
           | Inr l \<Rightarrow> Inr (s\<lparr>console_out := console_out s @ [l]\<rparr>))
      | QueueHandler \<Rightarrow>
          (case Formatter_format [Message] r of
             Inl err \<Rightarrow> if err = NotModelled then Inl NotModelled else Inr s
           | Inr m \<Rightarrow> Inr (s\<lparr>log_queue := log_queue s @ [r\<lparr>msg := m, args := []\<rparr>]\<rparr>)))"

text \<open>\<^verbatim>\<open>Logger.callHandlers\<close>: every handler whose level the record reaches.\<close>

fun callHandlers :: "handler list \<Rightarrow> env \<Rightarrow> log_record \<Rightarrow> pstate \<Rightarrow> py_error + pstate" where
  "callHandlers [] e r s = Inr s"
| "callHandlers (h # hs) e r s =
     (if h_level h \<le> levelno r then
        (case Handler_handle h e r s of
           Inl err \<Rightarrow> Inl err
         | Inr s' \<Rightarrow> callHandlers hs e r s')
      else callHandlers hs e r s)"

text \<open>The two filters of \<^verbatim>\<open>final_logger.py\<close>: the record as they leave it, and their result.\<close>

definition SensitiveDataFilter_filter :: "log_record \<Rightarrow> log_record \<times> bool" where
  "SensitiveDataFilter_filter r = (r\<lparr>msg := py_replace ''password'' ''******'' (msg r)\<rparr>, True)"

definition ContextFilter_filter :: "log_record \<Rightarrow> log_record \<times> bool" where
  "ContextFilter_filter r = (r\<lparr>user_id := Some ''12345''\<rparr>, True)"

fun apply_filter :: "log_filter \<Rightarrow> log_record \<Rightarrow> log_record \<times> bool" where
  "apply_filter SensitiveDataFilter r = SensitiveDataFilter_filter r"
| "apply_filter ContextFilter r = ContextFilter_filter r"

text \<open>\<^verbatim>\<open>Filterer.filter\<close>: the filters in order; the first false result rejects the record.\<close>

fun Filterer_filter :: "log_filter list \<Rightarrow> log_record \<Rightarrow> log_record option" where
  "Filterer_filter [] r = Some r"
| "Filterer_filter (f # fs) r =
     (case apply_filter f r of (r', result) \<Rightarrow>
        if result then Filterer_filter fs r' else None)"

definition Logger_handle :: "logger \<Rightarrow> env \<Rightarrow> log_record \<Rightarrow> pstate \<Rightarrow> py_error + pstate" where
  "Logger_handle lg e r s =
     (case Filterer_filter (lg_filters lg) r of
        None \<Rightarrow> Inr s
      | Some r' \<Rightarrow> callHandlers (lg_handlers lg) e r' s)"

text \<open>
  The loggers of the repository have a level of their own or no parent, so the
  effective level is the logger's level. \<^verbatim>\<open>isEnabledFor\<close> is the package's documented
  test against that level: \<^verbatim>\<open>logging.disable\<close> and \<^verbatim>\<open>Logger.disabled\<close> are never used by
  the repository, and the package's cache of earlier answers (which \<^verbatim>\<open>setLevel\<close> clears
  for the loggers that \<^verbatim>\<open>logging.getLogger\<close> registered) is not modelled. \<open>Logger_log\<close> is
  \<^verbatim>\<open>Logger._log\<close>: \<open>caller\<close> is the frame \<^verbatim>\<open>findCaller\<close> reports, the first one outside
  the logging package.
\<close>

definition isEnabledFor :: "logger \<Rightarrow> int \<Rightarrow> bool" where
  "isEnabledFor lg level \<longleftrightarrow> lg_level lg \<le> level"

definition Logger_log ::
  "logger \<Rightarrow> int \<Rightarrow> frame_info \<Rightarrow> env \<Rightarrow> string \<Rightarrow> string list \<Rightarrow> pstate \<Rightarrow> py_error + pstate" where
  "Logger_log lg level caller e m a s =
     Logger_handle lg e (makeRecord (lg_name lg) level caller e m a)
       (s\<lparr>records_made := Suc (records_made s)\<rparr>)"

definition Logger_debug ::
  "logger \<Rightarrow> frame_info \<Rightarrow> env \<Rightarrow> string \<Rightarrow> string list \<Rightarrow> pstate \<Rightarrow> py_error + pstate" where
  "Logger_debug lg caller e m a s =
     (if isEnabledFor lg DEBUG then Logger_log lg DEBUG caller e m a s else Inr s)"

definition Logger_info ::
  "logger \<Rightarrow> frame_info \<Rightarrow> env \<Rightarrow> string \<Rightarrow> string list \<Rightarrow> pstate \<Rightarrow> py_error + pstate" where
  "Logger_info lg caller e m a s =
     (if isEnabledFor lg INFO then Logger_log lg INFO caller e m a s else Inr s)"

definition Logger_warning ::
  "logger \<Rightarrow> frame_info \<Rightarrow> env \<Rightarrow> string \<Rightarrow> string list \<Rightarrow> pstate \<Rightarrow> py_error + pstate" where
  "Logger_warning lg caller e m a s =
     (if isEnabledFor lg WARNING then Logger_log lg WARNING caller e m a s else Inr s)"

definition Logger_error ::
  "logger \<Rightarrow> frame_info \<Rightarrow> env \<Rightarrow> string \<Rightarrow> string list \<Rightarrow> pstate \<Rightarrow> py_error + pstate" where
  "Logger_error lg caller e m a s =
     (if isEnabledFor lg ERROR then Logger_log lg ERROR caller e m a s else Inr s)"

definition Logger_critical ::
  "logger \<Rightarrow> frame_info \<Rightarrow> env \<Rightarrow> string \<Rightarrow> string list \<Rightarrow> pstate \<Rightarrow> py_error + pstate" where
  "Logger_critical lg caller e m a s =
     (if isEnabledFor lg CRITICAL then Logger_log lg CRITICAL caller e m a s else Inr s)"

section \<open>The subclassed logger (\<^verbatim>\<open>final_logger.py\<close>, \<^verbatim>\<open>qlogger.py\<close>, \<^verbatim>\<open>q_logger2.py\<close>)\<close>

text \<open>
  \<^verbatim>\<open>CustomLogger.__get_call_info\<close> reads entry 2 of \<^verbatim>\<open>inspect.stack()\<close>; indexing a
  shorter list raises IndexError, and nothing catches it.
\<close>

definition get_call_info :: "frame_info list \<Rightarrow> py_error + (string \<times> int)" where
  "get_call_info stk =
     (if 2 < length stk then Inr (f_filename (stk ! 2), f_lineno (stk ! 2))
      else Inl IndexError)"

text \<open>
  The four level methods, with the line numbers of \<^verbatim>\<open>final_logger.py\<close>. Each reads
  the clock, resolves its caller, builds the text and calls \<^verbatim>\<open>super().info\<close>. Keyword
  arguments are not modelled.
\<close>

definition info :: "logger \<Rightarrow> env \<Rightarrow> string \<Rightarrow> string list \<Rightarrow> pstate \<Rightarrow> py_error + pstate" where
  "info lg e m a s =
     (let timestamp = now e;
          s1 = s\<lparr>stack_inspections := Suc (stack_inspections s)\<rparr>
      in case get_call_info
                (inspect_stack e (frame_at e 105 ''__get_call_info'') (frame_at e 73 ''info'')) of
           Inl err \<Rightarrow> Inl err
         | Inr (file_name, line_num) \<Rightarrow>
             Logger_info lg (frame_at e 75 ''info'') e
               (file_name @ '' '' @ str_int line_num @ '' : '' @ timestamp @ '' INFO: '' @ m)
               a s1)"

definition debug :: "logger \<Rightarrow> env \<Rightarrow> string \<Rightarrow> string list \<Rightarrow> pstate \<Rightarrow> py_error + pstate" where
  "debug lg e m a s =
     (let timestamp = now e;
          s1 = s\<lparr>stack_inspections := Suc (stack_inspections s)\<rparr>
      in case get_call_info
                (inspect_stack e (frame_at e 105 ''__get_call_info'') (frame_at e 79 ''debug'')) of
           Inl err \<Rightarrow> Inl err
         | Inr (file_name, line_num) \<Rightarrow>
             Logger_info lg (frame_at e 81 ''debug'') e
               (file_name @ '' '' @ str_int line_num @ '' : '' @ timestamp @ '' DEBUG: '' @ m)
               a s1)"

definition warning :: "logger \<Rightarrow> env \<Rightarrow> string \<Rightarrow> string list \<Rightarrow> pstate \<Rightarrow> py_error + pstate" where
  "warning lg e m a s =
     (let timestamp = now e;
          s1 = s\<lparr>stack_inspections := Suc (stack_inspections s)\<rparr>
      in case get_call_info
                (inspect_stack e (frame_at e 105 ''__get_call_info'') (frame_at e 85 ''warning'')) of
           Inl err \<Rightarrow> Inl err
         | Inr (file_name, line_num) \<Rightarrow>
             Logger_info lg (frame_at e 87 ''warning'') e
               (file_name @ '' '' @ str_int line_num @ '' : '' @ timestamp @ '' WARNING: '' @ m)
               a s1)"

definition str_opt :: "string option \<Rightarrow> string" where
  "str_opt x = (case x of None \<Rightarrow> ''None'' | Some t \<Rightarrow> t)"

definition exception_text :: "tb_entry \<Rightarrow> string" where
  "exception_text tb =
     CHR 0x0A # '' Exception in '' @ tb_file tb @ '', Line '' @ str_int (tb_line tb)
       @ '', in '' @ tb_func tb @ '': '' @ str_opt (tb_context tb)"

definition error :: "logger \<Rightarrow> env \<Rightarrow> string \<Rightarrow> string list \<Rightarrow> pstate \<Rightarrow> py_error + pstate" where
  "error lg e m a s =
     (let timestamp = now e;
          m1 = (case exc_tb e of None \<Rightarrow> m | Some tb \<Rightarrow> m @ exception_text tb);
          s1 = s\<lparr>stack_inspections := Suc (stack_inspections s)\<rparr>
      in case get_call_info
                (inspect_stack e (frame_at e 105 ''__get_call_info'') (frame_at e 96 ''error'')) of
           Inl err \<Rightarrow> Inl err
         | Inr (file_name, line_num) \<Rightarrow>
             Logger_info lg (frame_at e 98 ''error'') e
               (file_name @ '' '' @ str_int line_num @ '' : '' @ timestamp @ '' ERROR: '' @ m1)
               a s1)"

text \<open>
  \<^verbatim>\<open>q_logger1.py\<close> has the same class with one difference: \<^verbatim>\<open>warning\<close> ends in
  \<^verbatim>\<open>super().warning\<close> (and \<^verbatim>\<open>debug\<close>, \<^verbatim>\<open>error\<close> in \<^verbatim>\<open>super().debug\<close>, \<^verbatim>\<open>super().error\<close>).
\<close>

definition q_logger1_warning ::
  "logger \<Rightarrow> env \<Rightarrow> string \<Rightarrow> string list \<Rightarrow> pstate \<Rightarrow> py_error + pstate" where
  "q_logger1_warning lg e m a s =
     (let timestamp = now e;
          s1 = s\<lparr>stack_inspections := Suc (stack_inspections s)\<rparr>
      in case get_call_info
                (inspect_stack e (frame_at e 60 ''__get_call_info'') (frame_at e 41 ''warning'')) of
           Inl err \<Rightarrow> Inl err
         | Inr (file_name, line_num) \<Rightarrow>
             Logger_warning lg (frame_at e 43 ''warning'') e
               (file_name @ '' '' @ str_int line_num @ '' : '' @ timestamp @ '' WARNING: '' @ m)
               a s1)"

section \<open>The registry: \<^verbatim>\<open>CaptureConsoleLogs\<close>\<close>

subsection \<open>\<^verbatim>\<open>final_logger.py\<close>\<close>

definition setup_logger :: "string \<Rightarrow> int \<Rightarrow> bool \<Rightarrow> pstate \<Rightarrow> logger \<times> pstate" where
  "setup_logger log_file log_level structured_logging s =
     (case shared_logger s of
        Some lg \<Rightarrow> (lg, s)
      | None \<Rightarrow>
          (let file_handler =
                 \<lparr>h_kind = FileHandler, h_level = log_level,
                  h_formatter = Some (if structured_logging then JSONFormatter
                    else Formatter [Asctime, Lit '' - '', Levelname, Lit '' - '', Message])\<rparr>;
               console_handler =
                 \<lparr>h_kind = StreamHandler, h_level = log_level,
                  h_formatter = Some (CustomFormatter [Message])\<rparr>;
               queue_handler = \<lparr>h_kind = QueueHandler, h_level = NOTSET, h_formatter = None\<rparr>;
               lg = \<lparr>lg_id = loggers_constructed s, lg_name = ''custom_logger'',
                     lg_level = log_level,
                     lg_filters = [SensitiveDataFilter, ContextFilter],
                     lg_handlers = [file_handler, console_handler, queue_handler]\<rparr>
           in (lg, s\<lparr>shared_logger := Some lg,
                     queue_listener := Some [file_handler, console_handler],
                     listener_alive := True, log_queue := [],
                     files_opened := files_opened s @ [log_file],
                     loggers_constructed := Suc (loggers_constructed s)\<rparr>)))"


text \<open>
  The listener's thread takes the records off the queue in order and hands each to its
  handlers, whatever their level (\<^verbatim>\<open>respect_handler_level\<close> is False). \<^verbatim>\<open>stop()\<close> waits
  until the thread has handled everything enqueued before it.
\<close>

fun listener_handle :: "handler list \<Rightarrow> env \<Rightarrow> log_record \<Rightarrow> pstate \<Rightarrow> py_error + pstate" where
  "listener_handle [] e r s = Inr s"
| "listener_handle (h # hs) e r s =
     (case Handler_handle h e r s of
        Inl err \<Rightarrow> Inl err
      | Inr s' \<Rightarrow> listener_handle hs e r s')"

definition listener_step :: "env \<Rightarrow> pstate \<Rightarrow> py_error + pstate" where
  "listener_step e s =
     (case (queue_listener s, log_queue s) of
        (Some hs, r # rs) \<Rightarrow>
          (if listener_alive s then listener_handle hs e r (s\<lparr>log_queue := rs\<rparr>) else Inr s)
      | _ \<Rightarrow> Inr s)"

fun listener_drain :: "nat \<Rightarrow> env \<Rightarrow> pstate \<Rightarrow> py_error + pstate" where
  "listener_drain 0 e s = Inr s"
| "listener_drain (Suc n) e s =
     (case listener_step e s of
        Inl err \<Rightarrow> Inl err
      | Inr s' \<Rightarrow> listener_drain n e s')"

definition QueueListener_stop :: "env \<Rightarrow> pstate \<Rightarrow> py_error + pstate" where
  "QueueListener_stop e s =
     (case listener_drain (length (log_queue s)) e s of
        Inl err \<Rightarrow> Inl err
      | Inr s' \<Rightarrow> Inr (s'\<lparr>listener_alive := False\<rparr>))"

definition shutdown_logger :: "env \<Rightarrow> pstate \<Rightarrow> py_error + pstate" where
  "shutdown_logger e s =
     (case (if queue_listener s \<noteq> None then QueueListener_stop e s else Inr s) of
        Inl err \<Rightarrow> Inl err
      | Inr s1 \<Rightarrow>
          (case shared_logger s1 of
             None \<Rightarrow> Inl AttributeError
           | Some lg \<Rightarrow> Inr s1))"

subsection \<open>\<^verbatim>\<open>qlogger.py\<close>\<close>



section \<open>The wrapper class (\<^verbatim>\<open>custom_logger.py\<close>)\<close>

text \<open>
  \<^verbatim>\<open>CustomLogger\<close> of \<^verbatim>\<open>custom_logger.py\<close> holds a logger of the logging package and,
  once \<^verbatim>\<open>start_timer\<close> has run, the attribute \<^verbatim>\<open>start_time\<close>. The constructor is
  modelled for a name no earlier wrapper has used, with no handler on the root logger.
\<close>

record wrapper =
  w_logger :: logger
  start_time :: "int option"

definition console_pieces :: "piece list" where
  "console_pieces =
     [Asctime, Lit '' - '', Name, Lit '' - '', Levelname, Lit '' - ['', Filename, Lit '':'',
      Lineno, Lit ''] - '', Message]"

definition file_pieces :: "piece list" where
  "file_pieces =
     [Asctime, Lit '' - '', Name, Lit '' - '', Levelname, Lit '' - ['', Filename, Lit '':'',
      Lineno, Lit ''] - [PID:'', Process, Lit ''] [TID:'', Thread, Lit ''] - '', Message]"

definition CustomLogger_init :: "string \<Rightarrow> bool \<Rightarrow> string \<Rightarrow> pstate \<Rightarrow> wrapper \<times> pstate" where
  "CustomLogger_init name log_to_file log_file s =
     (let console_handler =
            \<lparr>h_kind = StreamHandler, h_level = DEBUG, h_formatter = Some (Formatter console_pieces)\<rparr>;
          file_handler =
            \<lparr>h_kind = FileHandler, h_level = DEBUG, h_formatter = Some (Formatter file_pieces)\<rparr>;
          lg = \<lparr>lg_id = loggers_constructed s, lg_name = name, lg_level = DEBUG,
                lg_filters = [],
                lg_handlers = console_handler # (if log_to_file then [file_handler] else [])\<rparr>
      in (\<lparr>w_logger = lg, start_time = None\<rparr>,
          s\<lparr>files_opened := files_opened s @ (if log_to_file then [log_file] else []),
            loggers_constructed := Suc (loggers_constructed s)\<rparr>))"

definition get_caller_info :: "frame_info list \<Rightarrow> py_error + (string \<times> string \<times> int)" where
  "get_caller_info stk =
     (if 2 < length stk then
        (let frame = stk ! 2;
             class_name = (case f_module frame of Some m \<Rightarrow> m | None \<Rightarrow> ''Unknown'');
             method_name = f_function frame;
             line_number = f_lineno frame
         in Inr (class_name, method_name, line_number))
      else Inl IndexError)"

text \<open>The colour codes of colorama.\<close>

definition Fore_GREEN :: string where "Fore_GREEN = ESC # ''[32m''"
definition Fore_CYAN :: string where "Fore_CYAN = ESC # ''[36m''"
definition Fore_YELLOW :: string where "Fore_YELLOW = ESC # ''[33m''"
definition Fore_RED :: string where "Fore_RED = ESC # ''[31m''"
definition Fore_MAGENTA :: string where "Fore_MAGENTA = ESC # ''[35m''"
definition Style_RESET_ALL :: string where "Style_RESET_ALL = ESC # ''[0m''"

definition log_text :: "string \<Rightarrow> string \<Rightarrow> string \<Rightarrow> int \<Rightarrow> string \<Rightarrow> string" where
  "log_text datetime class_name method_name line_number message =
     datetime @ '' - '' @ class_name @ ''.'' @ method_name @ '' (Line '' @ str_int line_number
       @ ''): '' @ message"

definition log_info :: "wrapper \<Rightarrow> env \<Rightarrow> string \<Rightarrow> pstate \<Rightarrow> py_error + pstate" where
  "log_info w e message s =
     (case get_caller_info
             (inspect_stack e (frame_at e 49 ''_get_caller_info'') (frame_at e 61 ''log_info'')) of
        Inl err \<Rightarrow> Inl err
      | Inr (class_name, method_name, line_number) \<Rightarrow>
          Logger_info (w_logger w) (frame_at e 62 ''log_info'') e
            (Fore_GREEN @ log_text (now e) class_name method_name line_number message
               @ Style_RESET_ALL)
            [] (s\<lparr>stack_inspections := Suc (stack_inspections s)\<rparr>))"

definition log_debug :: "wrapper \<Rightarrow> env \<Rightarrow> string \<Rightarrow> pstate \<Rightarrow> py_error + pstate" where
  "log_debug w e message s =
     (case get_caller_info
             (inspect_stack e (frame_at e 49 ''_get_caller_info'') (frame_at e 65 ''log_debug'')) of
        Inl err \<Rightarrow> Inl err
      | Inr (class_name, method_name, line_number) \<Rightarrow>
          Logger_debug (w_logger w) (frame_at e 66 ''log_debug'') e
            (Fore_CYAN @ log_text (now e) class_name method_name line_number message
               @ Style_RESET_ALL)
            [] (s\<lparr>stack_inspections := Suc (stack_inspections s)\<rparr>))"

definition log_warning :: "wrapper \<Rightarrow> env \<Rightarrow> string \<Rightarrow> pstate \<Rightarrow> py_error + pstate" where
  "log_warning w e message s =
     (case get_caller_info
             (inspect_stack e (frame_at e 49 ''_get_caller_info'') (frame_at e 69 ''log_warning'')) of
        Inl err \<Rightarrow> Inl err
      | Inr (class_name, method_name, line_number) \<Rightarrow>
          Logger_warning (w_logger w) (frame_at e 70 ''log_warning'') e
            (Fore_YELLOW @ log_text (now e) class_name method_name line_number message
               @ Style_RESET_ALL)
            [] (s\<lparr>stack_inspections := Suc (stack_inspections s)\<rparr>))"

definition log_error :: "wrapper \<Rightarrow> env \<Rightarrow> string \<Rightarrow> pstate \<Rightarrow> py_error + pstate" where
  "log_error w e message s =
     (case get_caller_info
             (inspect_stack e (frame_at e 49 ''_get_caller_info'') (frame_at e 73 ''log_error'')) of
        Inl err \<Rightarrow> Inl err
      | Inr (class_name, method_name, line_number) \<Rightarrow>
          (let error_trace = format_exc e
           in Logger_error (w_logger w) (frame_at e 75 ''log_error'') e
                (Fore_RED @ log_text (now e) class_name method_name line_number message
                   @ CHR 0x0A # error_trace @ Style_RESET_ALL)
                [] (s\<lparr>stack_inspections := Suc (stack_inspections s)\<rparr>)))"

definition log_critical :: "wrapper \<Rightarrow> env \<Rightarrow> string \<Rightarrow> pstate \<Rightarrow> py_error + pstate" where
  "log_critical w e message s =
     (case get_caller_info
             (inspect_stack e (frame_at e 49 ''_get_caller_info'') (frame_at e 78 ''log_critical'')) of
        Inl err \<Rightarrow> Inl err
      | Inr (class_name, method_name, line_number) \<Rightarrow>
          (let critical_trace = format_exc e
           in Logger_critical (w_logger w) (frame_at e 80 ''log_critical'') e
                (Fore_MAGENTA @ log_text (now e) class_name method_name line_number message
                   @ CHR 0x0A # critical_trace @ Style_RESET_ALL)
                [] (s\<lparr>stack_inspections := Suc (stack_inspections s)\<rparr>)))"

text \<open>\<^verbatim>\<open>str\<close> of a \<^verbatim>\<open>timedelta\<close>, given in microseconds.\<close>

definition zpad :: "nat \<Rightarrow> string \<Rightarrow> string" where
  "zpad n t = replicate (n - length t) CHR ''0'' @ t"

definition str_timedelta :: "int \<Rightarrow> string" where
  "str_timedelta us =
     (let days = us div 86400000000;
          rest = us mod 86400000000;
          seconds = rest div 1000000;
          microseconds = rest mod 1000000;
          hms = str_int (seconds div 3600) @ '':'' @ zpad 2 (str_int (seconds div 60 mod 60))
                  @ '':'' @ zpad 2 (str_int (seconds mod 60));
          t = (if days \<noteq> 0
               then str_int days @ '' day'' @ (if \<bar>days\<bar> \<noteq> 1 then ''s'' else []) @ '', '' @ hms
               else hms)
      in if microseconds \<noteq> 0 then t @ ''.'' @ zpad 6 (str_int microseconds) else t)"

definition start_timer :: "wrapper \<Rightarrow> env \<Rightarrow> string \<Rightarrow> pstate \<Rightarrow> py_error + wrapper \<times> pstate" where
  "start_timer w e log_msg s =
     (let w' = w\<lparr>start_time := Some (clock e)\<rparr>
      in case Logger_info (w_logger w') (frame_at e 85 ''start_timer'') e
                (''Start: '' @ log_msg) [] s of
           Inl err \<Rightarrow> Inl err
         | Inr s' \<Rightarrow> Inr (w', s'))"

definition end_timer_warning :: string where
  "end_timer_warning = ''Timer was not started before calling end_timer!''"

definition end_timer :: "wrapper \<Rightarrow> env \<Rightarrow> string \<Rightarrow> pstate \<Rightarrow> py_error + pstate" where
  "end_timer w e log_msg s =
     (case start_time w of
        Some t0 \<Rightarrow>
          (let elapsed_time = clock e - t0
           in Logger_info (w_logger w) (frame_at e 91 ''end_timer'') e
                (''End: '' @ log_msg @ '' | Elapsed Time: '' @ str_timedelta elapsed_time) [] s)
      | None \<Rightarrow>
          Logger_warning (w_logger w) (frame_at e 93 ''end_timer'') e end_timer_warning [] s)"

definition level_dict :: "string \<Rightarrow> int option" where
  "level_dict = map_of
     [(''DEBUG'', DEBUG), (''INFO'', INFO), (''WARNING'', WARNING), (''ERROR'', ERROR),
      (''CRITICAL'', CRITICAL)]"

text \<open>\<^verbatim>\<open>set_level\<close> has no failing path: \<^verbatim>\<open>dict.get\<close> supplies INFO for an unknown name.\<close>

definition set_level :: "wrapper \<Rightarrow> string \<Rightarrow> wrapper" where
  "set_level w level =
     w\<lparr>w_logger := (w_logger w)\<lparr>lg_level :=
          (case level_dict (upper level) of Some l \<Rightarrow> l | None \<Rightarrow> INFO)\<rparr>\<rparr>"

section \<open>Concrete inputs\<close>

text \<open>
  A caller at line 12 of \<^verbatim>\<open>app.py\<close>, a clock, no exception in flight, and the logger
  and state that \<^verbatim>\<open>setup_logger\<close> of \<^verbatim>\<open>final_logger.py\<close> builds with its default
  arguments in a fresh process.
\<close>

definition example_frame :: frame_info where
  "example_frame =
     \<lparr>f_filename = ''app.py'', f_lineno = 12, f_function = ''main'',
      f_module = Some ''__main__''\<rparr>"

definition example_env :: env where
  "example_env =
     \<lparr>stack = [example_frame], now = ''2024-01-02-03-04-05'',
      created = ''2024-01-02 03:04:05,678'', fmt_now = ''2024-01-02-03-04-06'', clock = 0,
      exc_tb = None, format_exc = ''NoneType: None'', src_file = ''final_logger.py'',
      src_module = ''final_logger'', pid = 4242, tid = 1, environment = ''development''\<rparr>"

definition example_logger :: logger where
  "example_logger =
     fst (setup_logger ''test_console_2024-01-02-03-04-05.log'' DEBUG False initial)"

definition example_state :: pstate where
  "example_state =
     snd (setup_logger ''test_console_2024-01-02-03-04-05.log'' DEBUG False initial)"

text \<open>
  The wrapper that the example at the end of \<^verbatim>\<open>custom_logger.py\<close> constructs, the state
  after its construction, and the environment of a call into that module.
\<close>

definition example_wrapper :: wrapper where
  "example_wrapper = fst (CustomLogger_init ''TestLogger'' True ''custom_app.log'' initial)"

definition example_wrapper_state :: pstate where
  "example_wrapper_state = snd (CustomLogger_init ''TestLogger'' True ''custom_app.log'' initial)"

definition example_wrapper_env :: env where
  "example_wrapper_env =
     example_env\<lparr>src_file := ''/srv/custom_logger.py'', src_module := ''custom_logger''\<rparr>"

definition example_record :: log_record where
  "example_record =
     makeRecord ''custom_logger'' INFO (frame_at example_env 75 ''info'') example_env
       ''app.py 12 : 2024-01-02-03-04-05 INFO: my password is hunter2'' []"

section \<open>The plain format, in the words of the specification\<close>

text \<open>
  The specification's template \<^verbatim>\<open>"<file> <line> : <timestamp> <LEVEL>: <message>"\<close>: the
  file, a space, the line number, \<^verbatim>\<open>" : "\<close>, the timestamp, a space, the level name, a
  colon, a space, the message. The level methods are compared with it below.
\<close>

definition plain_template :: "string \<Rightarrow> int \<Rightarrow> string \<Rightarrow> string \<Rightarrow> string \<Rightarrow> string" where
  "plain_template file line timestamp LEVEL message =
     file @ '' '' @ str_int line @ '' : '' @ timestamp @ '' '' @ LEVEL @ '': '' @ message"

section \<open>Redaction leaves no occurrence behind\<close>

lemma prefix_py_replace:
  assumes "old \<noteq> []" and "new \<noteq> []" and "set q \<inter> set new = {}"
  shows "prefix q (py_replace old new s) \<Longrightarrow> prefix q s"
  using assms
proof (induction old new s arbitrary: q rule: py_replace.induct)
  case (1 old new)
  then show ?case by simp
next
  case (2 old new c cs)
  show ?case
  proof (cases q)
    case Nil
    then show ?thesis by simp
  next
    case (Cons x q')
    show ?thesis
    proof (cases "prefix old (c # cs)")
      case True
      obtain n ns where new: "new = n # ns"
        using "2.prems"(3) by (cases new) auto
      from True "2.prems"(1,2) Cons new have "x = n"
        by simp
      with "2.prems"(4) Cons new show ?thesis
        by auto
    next
      case False
      with "2.prems"(1,2) Cons have xc: "x = c" and pre: "prefix q' (py_replace old new cs)"
        by simp_all
      from "2.prems"(4) Cons have "set q' \<inter> set new = {}"
        by auto
      with "2.IH"(3) [OF "2.prems"(2) False pre "2.prems"(2,3)] have "prefix q' cs"
        by simp
      with xc Cons show ?thesis
        by simp
    qed
  qed
qed

lemma sublist_append_disjoint:
  assumes "p \<noteq> []" and "set p \<inter> set a = {}"
  shows "sublist p (a @ b) \<longleftrightarrow> sublist p b"
  using assms(2)
proof (induction a)
  case Nil
  then show ?case by simp
next
  case (Cons x a)
  obtain y p' where p: "p = y # p'"
    using assms(1) by (cases p) auto
  from Cons.prems p have "y \<noteq> x"
    by auto
  then have "\<not> prefix p (x # a @ b)"
    by (simp add: p)
  moreover from Cons have "sublist p (a @ b) \<longleftrightarrow> sublist p b"
    by auto
  ultimately show ?case
    by (simp add: sublist_Cons_right)
qed

lemma sublist_append_disjoint_right:
  assumes "p \<noteq> []" and "set p \<inter> set b = {}"
  shows "sublist p (a @ b) \<longleftrightarrow> sublist p a"
proof -
  have "sublist (rev p) (rev b @ rev a) \<longleftrightarrow> sublist (rev p) (rev a)"
    by (rule sublist_append_disjoint) (use assms in auto)
  then show ?thesis
    by (metis rev_append sublist_rev)
qed

lemma py_replace_no_occurrence:
  assumes "old \<noteq> []" and "new \<noteq> []" and "set old \<inter> set new = {}"
  shows "\<not> sublist old (py_replace old new s)"
  using assms
proof (induction old new s rule: py_replace.induct)
  case (1 old new)
  then show ?case by simp
next
  case (2 old new c cs)
  show ?case
  proof (cases "prefix old (c # cs)")
    case True
    with "2.prems"(1) have
      "py_replace old new (c # cs) = new @ py_replace old new (drop (length old) (c # cs))"
      by simp
    moreover have "\<not> sublist old (py_replace old new (drop (length old) (c # cs)))"
      using "2.IH"(2) [OF "2.prems"(1) True "2.prems"] .
    ultimately show ?thesis
      using sublist_append_disjoint [OF "2.prems"(1,3)] by simp
  next
    case False
    with "2.prems"(1) have eq: "py_replace old new (c # cs) = c # py_replace old new cs"
      by simp
    have rest: "\<not> sublist old (py_replace old new cs)"
      using "2.IH"(3) [OF "2.prems"(1) False "2.prems"] .
    have "\<not> prefix old (c # py_replace old new cs)"
    proof
      assume pre: "prefix old (c # py_replace old new cs)"
      obtain y p' where old: "old = y # p'"
        using "2.prems"(1) by (cases old) auto
      from pre old have yc: "y = c" and "prefix p' (py_replace old new cs)"
        by auto
      moreover from "2.prems"(3) old have "set p' \<inter> set new = {}"
        by auto
      ultimately have "prefix p' cs"
        using prefix_py_replace [OF "2.prems"(1,2)] by blast
      with yc old False show False
        by simp
    qed
    with rest eq show ?thesis
      by (simp add: sublist_Cons_right)
  qed
qed

section \<open>The filter chain\<close>

lemma Filterer_filter_accepts: "\<exists>r'. Filterer_filter fs r = Some r'"
proof (induction fs arbitrary: r)
  case Nil
  show ?case by simp
next
  case (Cons f fs)
  show ?case
    by (cases f) (simp_all add: SensitiveDataFilter_filter_def ContextFilter_filter_def Cons.IH)
qed

lemma Filterer_filter_final:
  "Filterer_filter [SensitiveDataFilter, ContextFilter] r =
     Some (r\<lparr>msg := py_replace ''password'' ''******'' (msg r), user_id := Some ''12345''\<rparr>)"
  by (simp add: SensitiveDataFilter_filter_def ContextFilter_filter_def)

text \<open>
  C10. Both filters of \<^verbatim>\<open>final_logger.py\<close> return True for every record. So for every
  logger whose filters are among these two, the filter chain yields a record, never a
  rejection, and \<^verbatim>\<open>Logger.handle\<close> passes that record on to \<^verbatim>\<open>callHandlers\<close>: filtering
  drops no record.
\<close>

theorem filter_chain_never_rejects:
  "snd (SensitiveDataFilter_filter r) \<and> snd (ContextFilter_filter r)
   \<and> (\<exists>r'. Filterer_filter (lg_filters lg) r = Some r'
          \<and> Logger_handle lg e r s = callHandlers (lg_handlers lg) e r' s)"
proof -
  obtain r' where "Filterer_filter (lg_filters lg) r = Some r'"
    using Filterer_filter_accepts by blast
  then show ?thesis
    by (simp add: Logger_handle_def SensitiveDataFilter_filter_def ContextFilter_filter_def)
qed

section \<open>Calls without format arguments never fail in a handler\<close>

lemma Handler_handle_no_args:
  assumes "args r = []"
  shows "\<exists>s'. Handler_handle h e r s = Inr s'"
proof -
  have "\<exists>l. Handler_format f e r = Inr l" for f
    by (cases "(f, e, r)" rule: Handler_format.cases)
       (simp_all add: assms Formatter_format_def CustomFormatter_format_def getMessage_def)
  then obtain l where "Handler_format (h_formatter h) e r = Inr l"
    by blast
  then show ?thesis
    by (cases "h_kind h")
       (simp_all add: assms Handler_handle_def Formatter_format_def getMessage_def)
qed

lemma callHandlers_no_args:
  assumes "args r = []"
  shows "\<exists>s'. callHandlers hs e r s = Inr s'"
proof (induction hs arbitrary: s)
  case Nil
  show ?case by simp
next
  case (Cons h hs)
  obtain s1 where "Handler_handle h e r s = Inr s1"
    using Handler_handle_no_args [OF assms] by blast
  with Cons show ?case by simp
qed

lemma Filterer_filter_args: "Filterer_filter fs r = Some r' \<Longrightarrow> args r' = args r"
proof (induction fs arbitrary: r)
  case Nil
  then show ?case by simp
next
  case (Cons f fs)
  then show ?case
    by (cases f) (auto simp: SensitiveDataFilter_filter_def ContextFilter_filter_def)
qed

lemma Logger_log_no_args: "\<exists>s'. Logger_log lg lv c e m [] s = Inr s'"
proof -
  obtain r' where r':
    "Filterer_filter (lg_filters lg) (makeRecord (lg_name lg) lv c e m []) = Some r'"
    using Filterer_filter_accepts by blast
  then have "args r' = []"
    by (simp add: Filterer_filter_args makeRecord_def)
  then show ?thesis
    using r' callHandlers_no_args by (simp add: Logger_log_def Logger_handle_def)
qed

section \<open>The caller resolver\<close>

lemma get_call_info_inspect_stack:
  "get_call_info (inspect_stack e own meth) =
     (case stack e of [] \<Rightarrow> Inl IndexError | f # fs \<Rightarrow> Inr (f_filename f, f_lineno f))"
  by (simp add: get_call_info_def inspect_stack_def split: list.splits)

lemma get_caller_info_inspect_stack:
  "get_caller_info (inspect_stack e own meth) =
     (case stack e of
        [] \<Rightarrow> Inl IndexError
      | f # fs \<Rightarrow>
          Inr (case f_module f of Some m \<Rightarrow> m | None \<Rightarrow> ''Unknown'', f_function f, f_lineno f))"
  by (simp add: get_caller_info_def inspect_stack_def split: list.splits)

text \<open>
  C5, as the code has it. Both resolvers read entry 2 of the stack: with a calling frame
  they return its file (or module and function) and line; with no frame above the level
  method the stack has two entries only, the index raises IndexError, and every level
  method passes that exception on to its caller. No sentinel is returned.
\<close>

theorem caller_resolver_raises_on_shallow_stack:
  "get_call_info (inspect_stack e own meth) =
     (case stack e of [] \<Rightarrow> Inl IndexError | f # fs \<Rightarrow> Inr (f_filename f, f_lineno f))
   \<and> get_caller_info (inspect_stack e own meth) =
     (case stack e of
        [] \<Rightarrow> Inl IndexError
      | f # fs \<Rightarrow>
          Inr (case f_module f of Some m \<Rightarrow> m | None \<Rightarrow> ''Unknown'', f_function f, f_lineno f))
   \<and> (stack e = [] \<longrightarrow>
        info lg e m a s = Inl IndexError \<and> debug lg e m a s = Inl IndexError
        \<and> warning lg e m a s = Inl IndexError \<and> error lg e m a s = Inl IndexError
        \<and> log_info w e m s = Inl IndexError \<and> log_debug w e m s = Inl IndexError
        \<and> log_warning w e m s = Inl IndexError \<and> log_error w e m s = Inl IndexError
        \<and> log_critical w e m s = Inl IndexError)"
  by (simp add: get_call_info_inspect_stack get_caller_info_inspect_stack
      info_def debug_def warning_def error_def log_info_def log_debug_def log_warning_def
      log_error_def log_critical_def)

theorem caller_resolver_raises_on_shallow_stack_witness:
  "stack (example_env\<lparr>stack := []\<rparr>) = []
   \<and> info example_logger (example_env\<lparr>stack := []\<rparr>) ''hello'' [] example_state
       = Inl IndexError
   \<and> log_info example_wrapper (example_env\<lparr>stack := []\<rparr>) ''hello'' example_state
       = Inl IndexError"
  using caller_resolver_raises_on_shallow_stack
    [where e = "example_env\<lparr>stack := []\<rparr>" and lg = example_logger and m = "''hello''"
       and a = "[]" and s = example_state and w = example_wrapper]
  by simp

text \<open>
  C5 as the specification states it fails: with no calling frame the resolver does not
  return \<open>(''unknown'', -1)\<close>, and \<^verbatim>\<open>info\<close> raises IndexError.
\<close>

theorem caller_resolver_sentinel_counterexample:
  "get_call_info
     (inspect_stack (example_env\<lparr>stack := []\<rparr>)
        (frame_at example_env 105 ''__get_call_info'') (frame_at example_env 73 ''info''))
     \<noteq> Inr (''unknown'', - 1)
   \<and> info example_logger (example_env\<lparr>stack := []\<rparr>) ''hello'' [] example_state
       = Inl IndexError"
  by code_simp

section \<open>Setting the level by name\<close>

text \<open>
  C9, as the code has it. \<^verbatim>\<open>set_level\<close> has no failing path. A name that, in upper
  case, is none of the five level names is replaced by INFO without any notice.
\<close>

theorem set_level_unknown_name_becomes_INFO:
  "upper level \<notin> {''DEBUG'', ''INFO'', ''WARNING'', ''ERROR'', ''CRITICAL''} \<Longrightarrow>
     set_level w level = w\<lparr>w_logger := (w_logger w)\<lparr>lg_level := INFO\<rparr>\<rparr>"
  by (simp add: set_level_def level_dict_def)

theorem set_level_unknown_name_becomes_INFO_witness:
  "upper ''verbose'' \<notin> {''DEBUG'', ''INFO'', ''WARNING'', ''ERROR'', ''CRITICAL''}
   \<and> set_level (set_level example_wrapper ''ERROR'') ''verbose''
       = (set_level example_wrapper ''ERROR'')
           \<lparr>w_logger := (w_logger (set_level example_wrapper ''ERROR''))\<lparr>lg_level := INFO\<rparr>\<rparr>"
proof -
  have h: "upper ''verbose'' \<notin> {''DEBUG'', ''INFO'', ''WARNING'', ''ERROR'', ''CRITICAL''}"
    by code_simp
  show ?thesis
    using h set_level_unknown_name_becomes_INFO [OF h, of "set_level example_wrapper ''ERROR''"]
    by simp
qed

text \<open>
  C9 as the specification states it fails: the unknown name \<^verbatim>\<open>"verbose"\<close> is accepted,
  the call returns a wrapper, and the level it sets is INFO.
\<close>

theorem set_level_unknown_name_counterexample:
  "upper ''verbose'' \<notin> {''DEBUG'', ''INFO'', ''WARNING'', ''ERROR'', ''CRITICAL''}
   \<and> lg_level (w_logger (set_level (set_level example_wrapper ''ERROR'') ''verbose'')) = INFO
   \<and> lg_level (w_logger (set_level example_wrapper ''ERROR'')) = ERROR"
  by code_simp

section \<open>Calls below the logger's level\<close>




section \<open>The severity of the records\<close>

text \<open>
  C1 at a concrete call. In the logger that \<^verbatim>\<open>final_logger.py\<close> sets up, \<^verbatim>\<open>warning\<close>,
  \<^verbatim>\<open>debug\<close> and \<^verbatim>\<open>error\<close> each end in \<^verbatim>\<open>super().info\<close>: the record they emit has
  level INFO, and the line in the file says INFO before the text that says WARNING.
\<close>

theorem level_methods_emit_at_INFO:
  "(case warning example_logger example_env ''disk full'' [] example_state of
      Inl err \<Rightarrow> [] | Inr s \<Rightarrow> map levelno (log_queue s)) = [INFO]
   \<and> (case debug example_logger example_env ''cache miss'' [] example_state of
      Inl err \<Rightarrow> [] | Inr s \<Rightarrow> map levelno (log_queue s)) = [INFO]
   \<and> (case error example_logger example_env ''write failed'' [] example_state of
      Inl err \<Rightarrow> [] | Inr s \<Rightarrow> map levelno (log_queue s)) = [INFO]
   \<and> (case warning example_logger example_env ''disk full'' [] example_state of
      Inl err \<Rightarrow> [] | Inr s \<Rightarrow> file_out s)
     = [Text ''2024-01-02 03:04:05,678 - INFO - app.py 12 : 2024-01-02-03-04-05 WARNING: disk full'']
   \<and> INFO \<noteq> WARNING \<and> INFO \<noteq> DEBUG \<and> INFO \<noteq> ERROR"
  by code_simp

text \<open>The same call through \<^verbatim>\<open>warning\<close> of \<^verbatim>\<open>q_logger1.py\<close> emits at WARNING.\<close>

lemma q_logger1_warning_emits_at_WARNING:
  "(case q_logger1_warning example_logger example_env ''disk full'' [] example_state of
      Inl err \<Rightarrow> [] | Inr s \<Rightarrow> map levelno (log_queue s)) = [WARNING]"
  by code_simp

section \<open>Shutdown and the queue\<close>

text \<open>
  For every message without format arguments and every level up to INFO: one call of
  \<^verbatim>\<open>info\<close> on the freshly set-up logger of \<^verbatim>\<open>final_logger.py\<close> (text mode), followed by
  \<^verbatim>\<open>shutdown_logger\<close>, leaves the record's line twice in the file and twice on the
  console.
\<close>

lemma info_then_shutdown_writes_twice:
  assumes "stack e = f # fs" and "l \<le> INFO" and "shared_logger s0 = None"
    and "setup_logger log_file l False s0 = (lg, s)"
  shows "(case info lg e m [] s of Inl err \<Rightarrow> Inl err | Inr s' \<Rightarrow> shutdown_logger e' s') =
     Inr (s\<lparr>listener_alive := False,
           stack_inspections := Suc (stack_inspections s),
           records_made := Suc (records_made s),
           file_out := file_out s @
             replicate 2 (Text (created e @ '' - INFO - ''
                @ py_replace ''password'' ''******''
                    (plain_template (f_filename f) (f_lineno f) (now e) ''INFO'' m))),
           console_out := console_out s @
             replicate 2 (Text (ESC # ''[92m''
                @ py_replace ''password'' ''******''
                    (plain_template (f_filename f) (f_lineno f) (now e) ''INFO'' m) @ RESET))\<rparr>)"
proof -
  have two: "replicate 2 x = [x, x]" for x :: line
    by (simp add: numeral_2_eq_2)
  from assms(3,4) have lg: "lg = fst (setup_logger log_file l False s0)"
    and s: "s = snd (setup_logger log_file l False s0)"
    by simp_all
  show ?thesis
    using assms(1,2,3)
    unfolding lg s two
    by (simp add: info_def get_call_info_inspect_stack plain_template_def setup_logger_def
        Let_def Logger_info_def isEnabledFor_def Logger_log_def Logger_handle_def makeRecord_def
        SensitiveDataFilter_filter_def ContextFilter_filter_def Handler_handle_def
        Formatter_format_def CustomFormatter_format_def getMessage_def getLevelName_def
        COLORS_def shutdown_logger_def QueueListener_stop_def listener_step_def
        NOTSET_def DEBUG_def INFO_def WARNING_def ERROR_def CRITICAL_def)
qed

text \<open>
  C3 at a concrete run: the logger of \<^verbatim>\<open>final_logger.py\<close> with its default
  arguments, one call of \<^verbatim>\<open>info\<close>, then \<^verbatim>\<open>shutdown_logger\<close>. The file handler and the
  console handler are attached to the logger and also served by the queue listener, so
  after the shutdown the record's line stands twice in the file and twice on the
  console.
\<close>

theorem shutdown_delivers_each_record_twice:
  "(case info example_logger example_env ''hello'' [] example_state of
      Inl err \<Rightarrow> Inl err
    | Inr s \<Rightarrow> shutdown_logger example_env s)
   = Inr (example_state
       \<lparr>listener_alive := False,
        file_out :=
          [Text ''2024-01-02 03:04:05,678 - INFO - app.py 12 : 2024-01-02-03-04-05 INFO: hello'',
           Text ''2024-01-02 03:04:05,678 - INFO - app.py 12 : 2024-01-02-03-04-05 INFO: hello''],
        console_out :=
          [Text (ESC # ''[92mapp.py 12 : 2024-01-02-03-04-05 INFO: hello'' @ RESET),
           Text (ESC # ''[92mapp.py 12 : 2024-01-02-03-04-05 INFO: hello'' @ RESET)],
        stack_inspections := 1, records_made := 1\<rparr>)"
  by code_simp

section \<open>The timer\<close>

lemma end_timer_returns: "\<exists>s'. end_timer w e log_msg s = Inr s'"
  using Logger_log_no_args
  by (simp add: end_timer_def Logger_info_def Logger_warning_def split: option.splits)

text \<open>
  C8, as the code has it. \<^verbatim>\<open>end_timer\<close> never raises. With no \<^verbatim>\<open>start_time\<close> set it
  calls \<^verbatim>\<open>logger.warning\<close>: when the logger's level is WARNING or lower, one record of
  level WARNING is made and written to the console (and to the file, if the wrapper logs
  to a file); when \<^verbatim>\<open>set_level\<close> has raised the level above WARNING, nothing is made or
  written.
\<close>

theorem end_timer_without_start_timer:
  assumes "start_time w = None"
    and "w_logger w = (w_logger (fst (CustomLogger_init name log_to_file log_file s0)))\<lparr>lg_level := l\<rparr>"
  shows "(\<exists>s'. end_timer w e log_msg s = Inr s')
    \<and> end_timer w e log_msg s =
        (if l \<le> WARNING then
           Inr (s\<lparr>records_made := Suc (records_made s),
                 console_out := console_out s @
                   [Text (created e @ '' - '' @ name @ '' - WARNING - ['' @ basename (src_file e)
                      @ '':93] - Timer was not started before calling end_timer!'')],
                 file_out := file_out s @
                   (if log_to_file
                    then [Text (created e @ '' - '' @ name @ '' - WARNING - ['' @ basename (src_file e)
                      @ '':93] - [PID:'' @ str_int (pid e) @ ''] [TID:'' @ str_int (tid e)
                      @ ''] - Timer was not started before calling end_timer!'')]
                    else [])\<rparr>)
         else Inr s)"
proof -
  have n93: "str_int 93 = ''93''"
    by code_simp
  have "end_timer w e log_msg s =
        (if l \<le> WARNING then
           Inr (s\<lparr>records_made := Suc (records_made s),
                 console_out := console_out s @
                   [Text (created e @ '' - '' @ name @ '' - WARNING - ['' @ basename (src_file e)
                      @ '':93] - Timer was not started before calling end_timer!'')],
                 file_out := file_out s @
                   (if log_to_file
                    then [Text (created e @ '' - '' @ name @ '' - WARNING - ['' @ basename (src_file e)
                      @ '':93] - [PID:'' @ str_int (pid e) @ ''] [TID:'' @ str_int (tid e)
                      @ ''] - Timer was not started before calling end_timer!'')]
                    else [])\<rparr>)
         else Inr s)"
    using assms
    by (simp add: end_timer_def Logger_warning_def isEnabledFor_def Logger_log_def
        Logger_handle_def CustomLogger_init_def Let_def makeRecord_def Handler_handle_def
        Formatter_format_def getMessage_def console_pieces_def file_pieces_def
        end_timer_warning_def frame_at_def getLevelName_def n93
        DEBUG_def INFO_def WARNING_def ERROR_def CRITICAL_def NOTSET_def)
  then show ?thesis
    using end_timer_returns by simp
qed

theorem end_timer_without_start_timer_witness:
  "start_time example_wrapper = None
   \<and> end_timer example_wrapper example_wrapper_env ''job'' example_wrapper_state =
       Inr (example_wrapper_state
         \<lparr>records_made := 1,
          console_out :=
            [Text ''2024-01-02 03:04:05,678 - TestLogger - WARNING - [custom_logger.py:93] - Timer was not started before calling end_timer!''],
          file_out :=
            [Text ''2024-01-02 03:04:05,678 - TestLogger - WARNING - [custom_logger.py:93] - [PID:4242] [TID:1] - Timer was not started before calling end_timer!'']\<rparr>)"
proof -
  have h1: "start_time example_wrapper = None"
    by code_simp
  have h2: "w_logger example_wrapper =
      (w_logger (fst (CustomLogger_init ''TestLogger'' True ''custom_app.log'' initial)))\<lparr>lg_level := DEBUG\<rparr>"
    by code_simp
  have ev: "created example_wrapper_env = ''2024-01-02 03:04:05,678''"
    "basename (src_file example_wrapper_env) = ''custom_logger.py''"
    "str_int (pid example_wrapper_env) = ''4242''" "str_int (tid example_wrapper_env) = ''1''"
    "records_made example_wrapper_state = 0" "console_out example_wrapper_state = []"
    "file_out example_wrapper_state = []"
    by code_simp+
  show ?thesis
    using h1 end_timer_without_start_timer [OF h1 h2, of example_wrapper_env "''job''" example_wrapper_state]
    by (simp add: ev DEBUG_def WARNING_def)
qed

text \<open>
  C8 as the specification states it fails: after \<^verbatim>\<open>set_level("ERROR")\<close>, \<^verbatim>\<open>end_timer\<close>
  without \<^verbatim>\<open>start_timer\<close> returns and leaves the state as it was; no WARNING record is
  produced.
\<close>

theorem end_timer_counterexample:
  "start_time (set_level example_wrapper ''ERROR'') = None
   \<and> end_timer (set_level example_wrapper ''ERROR'') example_wrapper_env ''job'' example_wrapper_state
      = Inr example_wrapper_state"
  by code_simp

section \<open>Redaction in the pipeline of \<^verbatim>\<open>final_logger.py\<close>\<close>

lemma COLORS_disjoint:
  "set (case COLORS n of Some c \<Rightarrow> c | None \<Rightarrow> RESET) \<inter> set ''password'' = {}"
  by (simp add: COLORS_def RESET_def ESC_def)

lemma RESET_disjoint: "set RESET \<inter> set ''password'' = {}"
  by (simp add: RESET_def ESC_def)

lemma coloured_no_password:
  assumes "\<not> sublist ''password'' t"
  shows "\<not> sublist ''password'' ((case COLORS n of Some c \<Rightarrow> c | None \<Rightarrow> RESET) @ t @ RESET)"
proof -
  have "sublist ''password'' ((case COLORS n of Some c \<Rightarrow> c | None \<Rightarrow> RESET) @ t @ RESET)
        \<longleftrightarrow> sublist ''password'' (t @ RESET)"
    by (rule sublist_append_disjoint) (use COLORS_disjoint in auto)
  also have "\<dots> \<longleftrightarrow> sublist ''password'' t"
    by (rule sublist_append_disjoint_right) (use RESET_disjoint in auto)
  finally show ?thesis
    using assms by simp
qed

lemma redact_no_password: "\<not> sublist ''password'' (py_replace ''password'' ''******'' t)"
  by (rule py_replace_no_occurrence) simp_all

text \<open>
  C4, as the code has it. The logger's filters run in \<^verbatim>\<open>Logger.handle\<close> before any
  handler sees the record: every occurrence of \<^verbatim>\<open>password\<close> in the \<open>msg\<close> field is
  replaced by six asterisks, and of the other fields only \<open>user_id\<close> changes. For a call
  without format arguments, whose record reaches the handlers' level, the message part
  of the line in the file (text or JSON), the line on the console and the record put on
  the queue carry the redacted text, which holds no \<^verbatim>\<open>password\<close>; the console line holds
  none at all.
\<close>

theorem redaction_masks_msg_field:
  assumes "shared_logger s0 = None"
    and "lg = (fst (setup_logger log_file l structured s0))\<lparr>lg_level := l'\<rparr>"
    and "args r = []" and "l \<le> levelno r" and "0 \<le> levelno r"
  shows "\<exists>t. t = py_replace ''password'' ''******'' (msg r)
    \<and> \<not> sublist ''password'' t
    \<and> Filterer_filter (lg_filters lg) r = Some (r\<lparr>msg := t, user_id := Some ''12345''\<rparr>)
    \<and> Logger_handle lg e r s =
        Inr (s\<lparr>file_out := file_out s @
                 [if structured
                  then JsonDumps
                         [(''time'', JStr (fmt_now e)), (''level'', JStr (levelname r)),
                          (''file'', JStr (pathname r)), (''line'', JInt (lineno r)),
                          (''message'', JStr t)]
                  else Text (asctime r @ '' - '' @ levelname r @ '' - '' @ t)],
              console_out := console_out s @
                 [Text ((case COLORS (levelname r) of Some c \<Rightarrow> c | None \<Rightarrow> RESET) @ t @ RESET)],
              log_queue := log_queue s @ [r\<lparr>msg := t, user_id := Some ''12345''\<rparr>]\<rparr>)
    \<and> \<not> sublist ''password''
          ((case COLORS (levelname r) of Some c \<Rightarrow> c | None \<Rightarrow> RESET) @ t @ RESET)"
proof -
  let ?t = "py_replace ''password'' ''******'' (msg r)"
  have np: "\<not> sublist ''password'' ?t"
    by (rule redact_no_password)
  have fl: "Filterer_filter (lg_filters lg) r = Some (r\<lparr>msg := ?t, user_id := Some ''12345''\<rparr>)"
    using assms(1,2)
    by (simp add: setup_logger_def Let_def SensitiveDataFilter_filter_def ContextFilter_filter_def)
  have hd: "Logger_handle lg e r s =
        Inr (s\<lparr>file_out := file_out s @
                 [if structured
                  then JsonDumps
                         [(''time'', JStr (fmt_now e)), (''level'', JStr (levelname r)),
                          (''file'', JStr (pathname r)), (''line'', JInt (lineno r)),
                          (''message'', JStr ?t)]
                  else Text (asctime r @ '' - '' @ levelname r @ '' - '' @ ?t)],
              console_out := console_out s @
                 [Text ((case COLORS (levelname r) of Some c \<Rightarrow> c | None \<Rightarrow> RESET) @ ?t @ RESET)],
              log_queue := log_queue s @ [r\<lparr>msg := ?t, user_id := Some ''12345''\<rparr>]\<rparr>)"
    using assms
    by (simp add: Logger_handle_def setup_logger_def Let_def SensitiveDataFilter_filter_def
        ContextFilter_filter_def Handler_handle_def Formatter_format_def
        CustomFormatter_format_def JSONFormatter_format_def getMessage_def NOTSET_def)
  show ?thesis
    using np fl hd coloured_no_password [OF np] by blast
qed

theorem redaction_masks_msg_field_witness:
  "shared_logger initial = None \<and> args example_record = []
   \<and> DEBUG \<le> levelno example_record \<and> 0 \<le> levelno example_record
   \<and> (case Logger_handle example_logger example_env example_record example_state of
         Inl err \<Rightarrow> []
       | Inr s \<Rightarrow> file_out s)
     = [Text ''2024-01-02 03:04:05,678 - INFO - app.py 12 : 2024-01-02-03-04-05 INFO: my ****** is hunter2'']"
proof -
  have h1: "shared_logger initial = None"
    by code_simp
  have h2: "example_logger =
      (fst (setup_logger ''test_console_2024-01-02-03-04-05.log'' DEBUG False initial))\<lparr>lg_level := DEBUG\<rparr>"
    by code_simp
  have h3: "args example_record = []"
    by code_simp
  have h4: "DEBUG \<le> levelno example_record" and h5: "0 \<le> levelno example_record"
    by code_simp+
  have ev: "py_replace ''password'' ''******'' (msg example_record)
      = ''app.py 12 : 2024-01-02-03-04-05 INFO: my ****** is hunter2''"
    "asctime example_record = ''2024-01-02 03:04:05,678''" "levelname example_record = ''INFO''"
    "file_out example_state = []"
    by code_simp+
  show ?thesis
    using h1 h3 h4 h5
      redaction_masks_msg_field [OF h1 h2 h3 h4 h5, of example_env example_state]
    by (auto simp: ev)
qed

text \<open>
  C4 as the specification states it fails: format arguments are put into the message
  after the filter has run, so \<^verbatim>\<open>info("login %s", "password")\<close> writes the word to the
  file.
\<close>

theorem redaction_format_arguments_counterexample:
  "(case info example_logger example_env ''login %s'' [''password''] example_state of
      Inl err \<Rightarrow> [] | Inr s \<Rightarrow> file_out s)
     = [Text ''2024-01-02 03:04:05,678 - INFO - app.py 12 : 2024-01-02-03-04-05 INFO: login password'']
   \<and> sublist ''password''
        ''2024-01-02 03:04:05,678 - INFO - app.py 12 : 2024-01-02-03-04-05 INFO: login password''"
  by code_simp

section \<open>The plain format\<close>




section \<open>The registry holds one logger\<close>







end
